theory Spec2Isabelle
  imports
    Main
    "HOL-Library.AList"
    "HOL-Library.Char_ord"
    "HOL-Library.List_Lexorder"
    "HOL-Library.Product_Lexorder"
begin

section \<open>JavaScript values and objects\<close>

text \<open>
  The module moves plain JavaScript objects between its callers, the analytics sink and the
  document store. A value is one of the JSON shapes or \<open>undefined\<close>; a number is an integer
  (identifiers are strings, \<open>Date.now()\<close> is a count of milliseconds, a result count is a
  whole number). An object is the list of its properties in insertion order, with one entry
  per key.
\<close>

datatype jsval =
    JUndefined
  | JNull
  | JBool bool
  | JNum int
  | JStr string
  | JArr "jsval list"
  | JObj "(string \<times> jsval) list"

type_synonym jsobj = "(string \<times> jsval) list"

text \<open>
  An object literal \<open>{k1: v1, ..., ...spread}\<close>: properties are written left to right, and a
  key written again keeps its place and takes the later value.
\<close>

definition object_literal :: "(string \<times> jsval) list \<Rightarrow> jsobj" where
  "object_literal ps = foldl (\<lambda>obj (k, v). AList.update k v obj) [] ps"

text \<open>Reading a property: a missing key reads as \<open>undefined\<close>.\<close>

definition get_prop :: "jsobj \<Rightarrow> string \<Rightarrow> jsval" where
  "get_prop obj k = (case map_of obj k of None \<Rightarrow> JUndefined | Some v \<Rightarrow> v)"

text \<open>An optional parameter (\<open>x?: T\<close>) that was left out is \<open>undefined\<close>.\<close>

definition optional :: "('a \<Rightarrow> jsval) \<Rightarrow> 'a option \<Rightarrow> jsval" where
  "optional f x = (case x of None \<Rightarrow> JUndefined | Some a \<Rightarrow> f a)"

text \<open>
  Modelled from the spec: \<open>removeUndefinedProps\<close> of \<open>common/util/object\<close> is not among the
  sources. The spec says of the write path that it strips any field whose value is undefined
  rather than storing a placeholder.
\<close>

definition removeUndefinedProps :: "jsobj \<Rightarrow> jsobj" where
  "removeUndefinedProps obj = filter (\<lambda>(k, v). v \<noteq> JUndefined) obj"

section \<open>The document store\<close>

text \<open>
  A collection is addressed by its path segments (\<open>contracts/<id>/comments\<close>), a document by
  its collection and its identifier. The store holds one document per reference; the first
  binding of a reference in the list is the document.
\<close>

type_synonym CollectionReference = "string list"

datatype DocumentReference = DocumentReference (collection_of: CollectionReference) (id_of: string)

type_synonym firestore = "(DocumentReference \<times> jsobj) list"

datatype FirestoreError = InvalidArgument | PermissionDenied | Unavailable

datatype whereOp = OpEq | OpGt

datatype direction = Asc | Desc

datatype QueryConstraint =
    Where string whereOp jsval
  | OrderBy string direction
  | Limit int

datatype source = Collection CollectionReference | CollectionGroup string

datatype Query = Query (source_of: source) (constraints_of: "QueryConstraint list")

text \<open>What the module does to the outside, in the order it does it.\<close>

datatype effect =
    Track string jsobj
  | SetDoc DocumentReference jsobj "FirestoreError option"
  | GetDocs Query
  | Listen Query
  | ContractLookup string
  | BetsFetch string
  | Responded nat jsval

text \<open>
  The world the functions run in: the documents of the store, the wall clock that
  \<open>Date.now()\<close> reads, the identifiers the SDK hands out for new documents, the store's answer
  to a write (\<open>None\<close>: the write commits), and the effects so far.
\<close>

record world =
  documents :: firestore
  clock :: int
  autoId :: "nat \<Rightarrow> string"
  allocated :: nat
  writeFault :: "DocumentReference \<Rightarrow> jsobj \<Rightarrow> FirestoreError option"
  trace :: "effect list"

subsection \<open>The SDK's query builders\<close>

definition collection :: "string list \<Rightarrow> CollectionReference" where
  "collection segments = segments"

definition collectionGroup :: "string \<Rightarrow> Query" where
  "collectionGroup collectionId = Query (CollectionGroup collectionId) []"

text \<open>A collection reference is itself the query of all its documents.\<close>

definition all_of :: "CollectionReference \<Rightarrow> Query" where
  "all_of c = Query (Collection c) []"

definition query :: "Query \<Rightarrow> QueryConstraint list \<Rightarrow> Query" where
  "query q cs = Query (source_of q) (constraints_of q @ cs)"

definition orderBy :: "string \<Rightarrow> direction \<Rightarrow> QueryConstraint" where
  "orderBy field dir = OrderBy field dir"

definition where_c :: "string \<Rightarrow> whereOp \<Rightarrow> jsval \<Rightarrow> QueryConstraint" where
  "where_c field opr v = Where field opr v"

text \<open>\<open>limit(n)\<close> of the SDK validates its argument: it throws unless \<open>n\<close> is positive.\<close>

definition limit :: "int \<Rightarrow> FirestoreError + QueryConstraint" where
  "limit n = (if n \<le> 0 then Inl InvalidArgument else Inr (Limit n))"

text \<open>
  \<open>doc(collection)\<close> with no identifier makes a reference with the next auto-generated
  identifier.
\<close>

definition doc :: "CollectionReference \<Rightarrow> world \<Rightarrow> DocumentReference \<times> world" where
  "doc c w = (DocumentReference c (autoId w (allocated w)), w\<lparr>allocated := Suc (allocated w)\<rparr>)"

subsection \<open>Running a query\<close>

text \<open>
  A document is in a collection when its reference says so, and in a collection group when
  the last segment of its collection is the group's name.
\<close>

fun in_source :: "source \<Rightarrow> DocumentReference \<Rightarrow> bool" where
  "in_source (Collection c) r = (collection_of r = c)"
| "in_source (CollectionGroup n) r = (collection_of r \<noteq> [] \<and> last (collection_of r) = n)"

text \<open>
  An equality filter keeps the documents that have the field with that value; \<open>>\<close> compares
  numbers; an ordering on a field keeps only the documents that have the field (the queries
  of this module order on \<open>createdTime\<close>, a number).
\<close>

fun satisfies :: "jsobj \<Rightarrow> QueryConstraint \<Rightarrow> bool" where
  "satisfies d (Where f OpEq v) = (map_of d f = Some v)"
| "satisfies d (Where f OpGt v) =
     (case map_of d f of
        Some (JNum a) \<Rightarrow> (case v of JNum b \<Rightarrow> b < a | _ \<Rightarrow> False)
      | _ \<Rightarrow> False)"
| "satisfies d (OrderBy f dir) = (case map_of d f of Some (JNum a) \<Rightarrow> True | _ \<Rightarrow> False)"
| "satisfies d (Limit n) = True"

fun order_of :: "QueryConstraint list \<Rightarrow> (string \<times> direction) option" where
  "order_of [] = None"
| "order_of (OrderBy f dir # cs) = Some (f, dir)"
| "order_of (c # cs) = order_of cs"

fun limit_of :: "QueryConstraint list \<Rightarrow> int option" where
  "limit_of [] = None"
| "limit_of (Limit n # cs) = (case limit_of cs of None \<Rightarrow> Some n | Some m \<Rightarrow> Some m)"
| "limit_of (c # cs) = limit_of cs"

definition num_field :: "string \<Rightarrow> jsobj \<Rightarrow> int" where
  "num_field f d = (case map_of d f of Some (JNum a) \<Rightarrow> a | _ \<Rightarrow> 0)"

definition path :: "DocumentReference \<Rightarrow> string list" where
  "path r = collection_of r @ [id_of r]"

text \<open>
  The store orders by the field and, among equal values, by the document's path, in the
  direction of the ordering.
\<close>

definition sort_value :: "string \<Rightarrow> DocumentReference \<times> jsobj \<Rightarrow> int \<times> string list" where
  "sort_value f e = (num_field f (snd e), path (fst e))"

fun ordered :: "(string \<times> direction) option \<Rightarrow> (DocumentReference \<times> jsobj) list
    \<Rightarrow> (DocumentReference \<times> jsobj) list" where
  "ordered None es = sort_key (\<lambda>e. path (fst e)) es"
| "ordered (Some (f, Asc)) es = sort_key (sort_value f) es"
| "ordered (Some (f, Desc)) es = rev (sort_key (sort_value f) es)"

fun limited :: "int option \<Rightarrow> 'a list \<Rightarrow> 'a list" where
  "limited None es = es"
| "limited (Some n) es = take (nat n) es"

definition matching :: "firestore \<Rightarrow> Query \<Rightarrow> (DocumentReference \<times> jsobj) list" where
  "matching db q =
     filter (\<lambda>e. in_source (source_of q) (fst e) \<and> list_all (satisfies (snd e)) (constraints_of q))
       (AList.clearjunk db)"

definition run_query :: "firestore \<Rightarrow> Query \<Rightarrow> jsobj list" where
  "run_query db q =
     map snd (limited (limit_of (constraints_of q))
       (ordered (order_of (constraints_of q)) (matching db q)))"

subsection \<open>Reading and writing\<close>

text \<open>
  Modelled from the spec: \<open>getValues\<close> of \<open>./utils\<close> is not among the sources. The spec says
  it executes a query once and returns the materialized list. The read is answered from the
  store's documents as they are; a read lost in transport is outside this model.
\<close>

definition getValues :: "Query \<Rightarrow> world \<Rightarrow> jsobj list \<times> world" where
  "getValues q w = (run_query (documents w) q, w\<lparr>trace := trace w @ [GetDocs q]\<rparr>)"

text \<open>
  \<open>setDoc\<close> is a point write: it creates or overwrites the document at the reference, or is
  rejected by the store and changes nothing.
\<close>

definition setDoc :: "DocumentReference \<Rightarrow> jsobj \<Rightarrow> world \<Rightarrow> (FirestoreError + unit) \<times> world" where
  "setDoc ref data w =
     (case writeFault w ref data of
        None \<Rightarrow>
          (Inr (), w\<lparr>documents := AList.update ref data (documents w),
                      trace := trace w @ [SetDoc ref data None]\<rparr>)
      | Some e \<Rightarrow> (Inl e, w\<lparr>trace := trace w @ [SetDoc ref data (Some e)]\<rparr>))"

text \<open>
  Modelled from the spec: \<open>track\<close> of \<open>../service/analytics\<close> is not among the sources. The
  spec says it is a fire-and-forget emission of an event name and a property bag.
\<close>

definition track :: "string \<Rightarrow> jsobj \<Rightarrow> world \<Rightarrow> world" where
  "track eventName properties w = w\<lparr>trace := trace w @ [Track eventName properties]\<rparr>"

section \<open>The comment module\<close>

definition MAX_COMMENT_LENGTH :: int where
  "MAX_COMMENT_LENGTH = 10000"

text \<open>
  The tag object of a comment's parent: \<open>OnContract\<close> carries the market and the optional
  outcome label, \<open>OnGroup\<close> the group, \<open>OnPost\<close> the post. \<open>fields\<close> lists the properties in
  the order the three entry points write them.
\<close>

datatype extraFields =
    OnContract string "string option"
  | OnGroup string
  | OnPost string

fun commentType :: "extraFields \<Rightarrow> string" where
  "commentType (OnContract contractId answerOutcome) = ''contract''"
| "commentType (OnGroup groupId) = ''group''"
| "commentType (OnPost postId) = ''post''"

fun fields :: "extraFields \<Rightarrow> (string \<times> jsval) list" where
  "fields (OnContract contractId answerOutcome) =
     [(''commentType'', JStr ''contract''),
      (''contractId'', JStr contractId),
      (''answerOutcome'', optional JStr answerOutcome)]"
| "fields (OnGroup groupId) =
     [(''commentType'', JStr ''group''), (''groupId'', JStr groupId)]"
| "fields (OnPost postId) =
     [(''postId'', JStr postId), (''commentType'', JStr ''post'')]"

definition getCommentsCollection :: "string \<Rightarrow> CollectionReference" where
  "getCommentsCollection contractId = collection [''contracts'', contractId, ''comments'']"

definition getCommentsOnGroupCollection :: "string \<Rightarrow> CollectionReference" where
  "getCommentsOnGroupCollection groupId = collection [''groups'', groupId, ''comments'']"

definition getCommentsOnPostCollection :: "string \<Rightarrow> CollectionReference" where
  "getCommentsOnPostCollection postId = collection [''posts'', postId, ''comments'']"

text \<open>
  The record \<open>createComment\<close> assembles. The user is the object the caller passes; the
  routine reads its \<open>id\<close>, \<open>name\<close>, \<open>username\<close> and \<open>avatarUrl\<close>.
\<close>

definition comment_record :: "extraFields \<Rightarrow> jsval \<Rightarrow> jsobj \<Rightarrow> DocumentReference
    \<Rightarrow> string option \<Rightarrow> int \<Rightarrow> jsobj" where
  "comment_record extra content user ref replyToCommentId now =
     removeUndefinedProps (object_literal
       ([(''id'', JStr (id_of ref)),
         (''userId'', get_prop user ''id''),
         (''content'', content),
         (''createdTime'', JNum now),
         (''userName'', get_prop user ''name''),
         (''userUsername'', get_prop user ''username''),
         (''userAvatarUrl'', get_prop user ''avatarUrl''),
         (''replyToCommentId'', optional JStr replyToCommentId)]
        @ fields extra))"

definition track_properties :: "string \<Rightarrow> extraFields \<Rightarrow> jsobj \<Rightarrow> DocumentReference
    \<Rightarrow> string option \<Rightarrow> bool option \<Rightarrow> jsobj" where
  "track_properties surfaceId extra user ref replyToCommentId onContractWithBounty =
     removeUndefinedProps (object_literal
       [(''user'', JObj user),
        (''commentId'', JStr (id_of ref)),
        (''surfaceId'', JStr surfaceId),
        (''replyToCommentId'', optional JStr replyToCommentId),
        (''onContractWithBounty'',
           if commentType extra = ''contract'' then optional JBool onContractWithBounty
           else JUndefined)])"

definition createComment :: "string \<Rightarrow> extraFields \<Rightarrow> jsval \<Rightarrow> jsobj \<Rightarrow> DocumentReference
    \<Rightarrow> string option \<Rightarrow> bool option \<Rightarrow> world \<Rightarrow> (FirestoreError + unit) \<times> world" where
  "createComment surfaceId extra content user ref replyToCommentId onContractWithBounty w =
     (let comment = comment_record extra content user ref replyToCommentId (clock w);
          w1 = track (commentType extra @ '' message'')
                 (track_properties surfaceId extra user ref replyToCommentId onContractWithBounty) w
      in setDoc ref comment w1)"

definition createCommentOnContract :: "string \<Rightarrow> jsval \<Rightarrow> jsobj \<Rightarrow> bool \<Rightarrow> string option
    \<Rightarrow> string option \<Rightarrow> world \<Rightarrow> (FirestoreError + unit) \<times> world" where
  "createCommentOnContract contractId content user onContractWithBounty answerOutcome
       replyToCommentId w =
     (let (ref, w1) = doc (getCommentsCollection contractId) w;
          onContract = OnContract contractId answerOutcome
      in createComment contractId onContract content user ref replyToCommentId
           (Some onContractWithBounty) w1)"

definition createCommentOnGroup :: "string \<Rightarrow> jsval \<Rightarrow> jsobj \<Rightarrow> string option \<Rightarrow> world
    \<Rightarrow> (FirestoreError + unit) \<times> world" where
  "createCommentOnGroup groupId content user replyToCommentId w =
     (let (ref, w1) = doc (getCommentsOnGroupCollection groupId) w;
          onGroup = OnGroup groupId
      in createComment groupId onGroup content user ref replyToCommentId None w1)"

definition createCommentOnPost :: "string \<Rightarrow> jsval \<Rightarrow> jsobj \<Rightarrow> string option \<Rightarrow> world
    \<Rightarrow> (FirestoreError + unit) \<times> world" where
  "createCommentOnPost postId content user replyToCommentId w =
     (let (ref, w1) = doc (getCommentsOnPostCollection postId) w;
          onPost = OnPost postId
      in createComment postId onPost content user ref replyToCommentId None w1)"

text \<open>
  \<open>maxCount ? query(q, limit(maxCount)) : q\<close>: the count is tested for truthiness, so both
  \<open>undefined\<close> and \<open>0\<close> take the unlimited query.
\<close>

definition listAllComments :: "string \<Rightarrow> int option \<Rightarrow> world
    \<Rightarrow> (FirestoreError + jsobj list) \<times> world" where
  "listAllComments contractId maxCount w =
     (let q = query (all_of (getCommentsCollection contractId)) [orderBy ''createdTime'' Desc]
      in case (case maxCount of
                 None \<Rightarrow> Inr q
               | Some n \<Rightarrow>
                   if n \<noteq> 0
                   then (case limit n of Inl e \<Rightarrow> Inl e | Inr c \<Rightarrow> Inr (query q [c]))
                   else Inr q) of
           Inl e \<Rightarrow> (Inl e, w)
         | Inr limitedQ \<Rightarrow> (case getValues limitedQ w of (vs, w1) \<Rightarrow> (Inr vs, w1)))"

definition listAllCommentsOnGroup :: "string \<Rightarrow> world \<Rightarrow> jsobj list \<times> world" where
  "listAllCommentsOnGroup groupId w =
     getValues (query (all_of (getCommentsOnGroupCollection groupId))
                  [orderBy ''createdTime'' Desc]) w"

definition listAllCommentsOnPost :: "string \<Rightarrow> world \<Rightarrow> jsobj list \<times> world" where
  "listAllCommentsOnPost postId w =
     getValues (query (all_of (getCommentsOnPostCollection postId))
                  [orderBy ''createdTime'' Desc]) w"

subsection \<open>Views across parents\<close>

definition DAY_IN_MS :: int where
  "DAY_IN_MS = 24 * 60 * 60 * 1000"

text \<open>
  \<open>recentCommentsQuery\<close> is a constant of the module: its initialiser runs once, when the
  module is loaded, and reads the clock of that moment. The loaded module is the record of
  that constant.
\<close>

record comments_module =
  recentCommentsQuery :: Query

definition load_module :: "world \<Rightarrow> comments_module" where
  "load_module w =
     \<lparr>recentCommentsQuery =
        query (collectionGroup ''comments'')
          [where_c ''createdTime'' OpGt (JNum (clock w - 3 * DAY_IN_MS)),
           orderBy ''createdTime'' Desc]\<rparr>"

text \<open>
  Modelled from the spec: \<open>listenForValues\<close> of \<open>./utils\<close> is not among the sources. The spec
  says it subscribes to a query and invokes the callback with the full current result on
  every change. A subscription is the query and the callback it was opened with; \<open>deliver\<close>
  is one invocation of the callback, on the store's documents of that moment.
\<close>

datatype 's subscription = Subscription Query "jsobj list \<Rightarrow> 's \<Rightarrow> 's"

definition listenForValues :: "Query \<Rightarrow> (jsobj list \<Rightarrow> 's \<Rightarrow> 's) \<Rightarrow> world
    \<Rightarrow> 's subscription \<times> world" where
  "listenForValues q setValues w = (Subscription q setValues, w\<lparr>trace := trace w @ [Listen q]\<rparr>)"

fun deliver :: "'s subscription \<Rightarrow> firestore \<Rightarrow> 's \<Rightarrow> 's" where
  "deliver (Subscription q setValues) db s = setValues (run_query db q) s"

definition getRecentComments :: "comments_module \<Rightarrow> world \<Rightarrow> jsobj list \<times> world" where
  "getRecentComments m w = getValues (recentCommentsQuery m) w"

definition listenForRecentComments :: "comments_module \<Rightarrow> (jsobj list \<Rightarrow> 's \<Rightarrow> 's) \<Rightarrow> world
    \<Rightarrow> 's subscription \<times> world" where
  "listenForRecentComments m setComments w = listenForValues (recentCommentsQuery m) setComments w"

definition getUserCommentsQuery :: "string \<Rightarrow> Query" where
  "getUserCommentsQuery userId =
     query (collectionGroup ''comments'')
       [where_c ''userId'' OpEq (JStr userId),
        where_c ''commentType'' OpEq (JStr ''contract''),
        orderBy ''createdTime'' Desc]"

section \<open>The market-detail endpoint\<close>

text \<open>
  The response object of the framework: the headers set so far, the status code, and the
  body once it has been sent.
\<close>

record response =
  headers :: "(string \<times> string) list"
  statusCode :: nat
  body :: "jsval option"

definition fresh_response :: response where
  "fresh_response = \<lparr>headers = [], statusCode = 200, body = None\<rparr>"

definition setHeader :: "string \<Rightarrow> string \<Rightarrow> response \<Rightarrow> response" where
  "setHeader name v res = res\<lparr>headers := AList.update name v (headers res)\<rparr>"

definition status :: "nat \<Rightarrow> response \<Rightarrow> response" where
  "status code res = res\<lparr>statusCode := code\<rparr>"

definition json :: "jsval \<Rightarrow> response \<Rightarrow> world \<Rightarrow> response \<times> world" where
  "json b res w =
     (res\<lparr>body := Some b\<rparr>, w\<lparr>trace := trace w @ [Responded (statusCode res) b]\<rparr>)"

record NextApiRequest =
  query_slug :: string

text \<open>
  Modelled from the spec: \<open>applyCorsHeaders\<close> and \<open>CORS_UNRESTRICTED\<close> of \<open>web/lib/api/cors\<close>
  are not among the sources. The spec says the handler applies an unrestricted cross-origin
  policy to the response (any origin permitted).
\<close>

datatype cors_policy = AnyOrigin

definition CORS_UNRESTRICTED :: cors_policy where
  "CORS_UNRESTRICTED = AnyOrigin"

fun applyCorsHeaders :: "NextApiRequest \<Rightarrow> response \<Rightarrow> cors_policy \<Rightarrow> response" where
  "applyCorsHeaders req res AnyOrigin = setHeader ''Access-Control-Allow-Origin'' ''*'' res"

text \<open>
  Modelled from the spec: \<open>getContractFromSlug\<close> of \<open>web/lib/firebase/contracts\<close>,
  \<open>listAllBets\<close> of \<open>web/lib/firebase/bets\<close>, \<open>toFullMarket\<close> of \<open>../_types\<close> and the type
  \<open>Contract\<close> are not among the sources. The spec says the handler resolves the slug to a
  market entity via an external collaborator (none may match), fetches the market's full bet
  list, and combines the market's full public projection with the fetched arrays. What the
  three return is a parameter (\<open>collaborators\<close>); the lookup and the bets fetch each leave
  their effect in the trace. Of a market the handler reads the \<open>id\<close>.
\<close>

record Contract =
  contract_id :: string
  contract_fields :: jsobj

record collaborators =
  contractOfSlug :: "string \<Rightarrow> Contract option"
  betsOf :: "string \<Rightarrow> jsval list"
  toFullMarket :: "Contract \<Rightarrow> jsobj"

definition getContractFromSlug :: "collaborators \<Rightarrow> string \<Rightarrow> world \<Rightarrow> Contract option \<times> world" where
  "getContractFromSlug env slug w =
     (contractOfSlug env slug, w\<lparr>trace := trace w @ [ContractLookup slug]\<rparr>)"

definition listAllBets :: "collaborators \<Rightarrow> string \<Rightarrow> world \<Rightarrow> jsval list \<times> world" where
  "listAllBets env contractId w =
     (betsOf env contractId, w\<lparr>trace := trace w @ [BetsFetch contractId]\<rparr>)"

text \<open>
  The handler. \<open>Promise.all\<close> starts the bets fetch and the comments fetch and continues when
  both have resolved; the model runs them one after the other. A rejection leaves the
  handler without sending a response.
\<close>

definition handler :: "collaborators \<Rightarrow> NextApiRequest \<Rightarrow> response \<Rightarrow> world
    \<Rightarrow> (FirestoreError + unit) \<times> response \<times> world" where
  "handler env req res w =
     (let res1 = applyCorsHeaders req res CORS_UNRESTRICTED;
          slug = query_slug req;
          (contract, w1) = getContractFromSlug env slug w
      in case contract of
           None \<Rightarrow>
             (case json (JObj (object_literal [(''error'', JStr ''Contract not found'')]))
                     (status 404 res1) w1 of
                (res2, w2) \<Rightarrow> (Inr (), res2, w2))
         | Some c \<Rightarrow>
             (let (bets, w2) = listAllBets env (contract_id c) w1;
                  (comments, w3) = listAllComments (contract_id c) None w2
              in case comments of
                   Inl e \<Rightarrow> (Inl e, res1, w3)
                 | Inr cs \<Rightarrow>
                     (let res2 = setHeader ''Cache-Control'' ''max-age=0'' res1
                      in case json (JObj (object_literal
                                ([(''comments'', JArr (map JObj cs)), (''bets'', JArr bets)]
                                 @ toFullMarket env c)))
                              (status 200 res2) w3 of
                           (res3, w4) \<Rightarrow> (Inr (), res3, w4))))"

section \<open>Notions the properties are stated with\<close>

text \<open>
  The comments stored under a parent: the documents of its comment collection that carry a
  creation time, one per reference, in no particular order.
\<close>

definition stored_comments :: "firestore \<Rightarrow> CollectionReference
    \<Rightarrow> (DocumentReference \<times> jsobj) list" where
  "stored_comments db c =
     filter (\<lambda>e. collection_of (fst e) = c \<and>
                 (case map_of (snd e) ''createdTime'' of Some (JNum a) \<Rightarrow> True | _ \<Rightarrow> False))
       (AList.clearjunk db)"

definition createdTime :: "jsobj \<Rightarrow> int" where
  "createdTime d = num_field ''createdTime'' d"

text \<open>Most recent first: creation times never increase along the list.\<close>

definition newest_first :: "jsobj list \<Rightarrow> bool" where
  "newest_first ds = sorted_wrt (\<lambda>a b. createdTime b \<le> createdTime a) ds"

text \<open>
  Every comment stored beside the reference \<open>ref\<close> (in the same collection, at another
  reference) was created strictly before \<open>now\<close>; and the weaker reading, that none was
  created after \<open>now\<close>.
\<close>

definition others_older :: "firestore \<Rightarrow> DocumentReference \<Rightarrow> int \<Rightarrow> bool" where
  "others_older db ref now =
     list_all (\<lambda>e. fst e = ref \<or> createdTime (snd e) < now)
       (stored_comments db (collection_of ref))"

definition none_newer :: "firestore \<Rightarrow> DocumentReference \<Rightarrow> int \<Rightarrow> bool" where
  "none_newer db ref now =
     list_all (\<lambda>e. fst e = ref \<or> createdTime (snd e) \<le> now)
       (stored_comments db (collection_of ref))"

text \<open>
  The comments stored under a parent, most recent first: by creation time and, among equal
  times, by path, both descending.
\<close>

definition newest_first_entries :: "CollectionReference \<Rightarrow> firestore \<Rightarrow> jsobj list" where
  "newest_first_entries c db =
     map snd (rev (sort_key (sort_value ''createdTime'') (stored_comments db c)))"

text \<open>
  The body of the endpoint's success response: \<open>{ comments, bets, ...toFullMarket(contract) }\<close>.
\<close>

definition market_body :: "collaborators \<Rightarrow> Contract \<Rightarrow> firestore \<Rightarrow> jsobj" where
  "market_body env c db =
     object_literal
       ([(''comments'',
           JArr (map JObj (newest_first_entries [''contracts'', contract_id c, ''comments''] db))),
         (''bets'', JArr (betsOf env (contract_id c)))]
        @ toFullMarket env c)"

text \<open>The reads the endpoint can make for a market's bets and comments.\<close>

fun is_fetch :: "effect \<Rightarrow> bool" where
  "is_fetch (BetsFetch contractId) = True"
| "is_fetch (GetDocs q) = True"
| "is_fetch e = False"

text \<open>The effects a call added to the trace.\<close>

definition added :: "world \<Rightarrow> world \<Rightarrow> effect list" where
  "added w w' = drop (length (trace w)) (trace w')"

section \<open>Example data\<close>

definition alice :: jsobj where
  "alice = [(''id'', JStr ''u1''), (''name'', JStr ''Alice''), (''username'', JStr ''alice'')]"

definition c1_comments :: CollectionReference where
  "c1_comments = [''contracts'', ''c1'', ''comments'']"

text \<open>
  A store with two comments on market \<open>c1\<close>, one comment on group \<open>g1\<close> and one on post
  \<open>p1\<close>, all by user \<open>u1\<close>; the clock reads 10 and the next identifier is \<open>a\<close>.
\<close>

definition example_world :: world where
  "example_world =
     \<lparr>documents =
        [(DocumentReference c1_comments ''k'',
            [(''id'', JStr ''k''), (''userId'', JStr ''u1''), (''createdTime'', JNum 3),
             (''commentType'', JStr ''contract''), (''contractId'', JStr ''c1'')]),
         (DocumentReference c1_comments ''z'',
            [(''id'', JStr ''z''), (''userId'', JStr ''u2''), (''createdTime'', JNum 4),
             (''commentType'', JStr ''contract''), (''contractId'', JStr ''c1'')]),
         (DocumentReference [''groups'', ''g1'', ''comments''] ''m'',
            [(''id'', JStr ''m''), (''userId'', JStr ''u1''), (''createdTime'', JNum 6),
             (''commentType'', JStr ''group''), (''groupId'', JStr ''g1'')]),
         (DocumentReference [''posts'', ''p1'', ''comments''] ''n'',
            [(''id'', JStr ''n''), (''userId'', JStr ''u1''), (''createdTime'', JNum 7),
             (''commentType'', JStr ''post''), (''postId'', JStr ''p1'')])],
      clock = 10,
      autoId = (\<lambda>n. ''a''),
      allocated = 0,
      writeFault = (\<lambda>r d. None),
      trace = []\<rparr>"

text \<open>The same store when it rejects every write.\<close>

definition rejecting_world :: world where
  "rejecting_world = example_world\<lparr>writeFault := (\<lambda>r d. Some PermissionDenied)\<rparr>"

text \<open>
  A store whose only comment on market \<open>c1\<close>, at reference \<open>z\<close>, was created at the very
  millisecond the clock reads.
\<close>

definition tied_world :: world where
  "tied_world =
     \<lparr>documents =
        [(DocumentReference c1_comments ''z'',
            [(''id'', JStr ''z''), (''userId'', JStr ''u2''), (''createdTime'', JNum 5),
             (''commentType'', JStr ''contract''), (''contractId'', JStr ''c1'')])],
      clock = 5,
      autoId = (\<lambda>n. ''a''),
      allocated = 0,
      writeFault = (\<lambda>r d. None),
      trace = []\<rparr>"

text \<open>The two comments of market \<open>c1\<close> in \<open>example_world\<close>.\<close>

definition comment_z :: jsobj where
  "comment_z = [(''id'', JStr ''z''), (''userId'', JStr ''u2''), (''createdTime'', JNum 4),
           (''commentType'', JStr ''contract''), (''contractId'', JStr ''c1'')]"

definition comment_k :: jsobj where
  "comment_k = [(''id'', JStr ''k''), (''userId'', JStr ''u1''), (''createdTime'', JNum 3),
           (''commentType'', JStr ''contract''), (''contractId'', JStr ''c1'')]"

text \<open>The comment of group \<open>g1\<close> and the comment of post \<open>p1\<close> in \<open>example_world\<close>.\<close>

definition comment_m :: jsobj where
  "comment_m = [(''id'', JStr ''m''), (''userId'', JStr ''u1''), (''createdTime'', JNum 6),
             (''commentType'', JStr ''group''), (''groupId'', JStr ''g1'')]"

definition comment_n :: jsobj where
  "comment_n = [(''id'', JStr ''n''), (''userId'', JStr ''u1''), (''createdTime'', JNum 7),
             (''commentType'', JStr ''post''), (''postId'', JStr ''p1'')]"

text \<open>The comment of market \<open>c1\<close> in \<open>tied_world\<close>.\<close>

definition tied_z :: jsobj where
  "tied_z = [(''id'', JStr ''z''), (''userId'', JStr ''u2''), (''createdTime'', JNum 5),
             (''commentType'', JStr ''contract''), (''contractId'', JStr ''c1'')]"

definition example_market :: Contract where
  "example_market = \<lparr>contract_id = ''c1'', contract_fields = [(''question'', JStr ''Q?'')]\<rparr>"

definition example_env :: collaborators where
  "example_env =
     \<lparr>contractOfSlug = (\<lambda>s. if s = ''valid-slug'' then Some example_market else None),
      betsOf = (\<lambda>i. [JObj [(''amount'', JNum 10)]]),
      toFullMarket = (\<lambda>c. (''id'', JStr (contract_id c)) # contract_fields c)\<rparr>"


section \<open>Objects: literals and stripping\<close>

lemma map_of_foldl_update:
  "map_of (foldl (\<lambda>obj (k, v). AList.update k v obj) acc ps) k =
     (case map_of (rev ps) k of None \<Rightarrow> map_of acc k | Some v \<Rightarrow> Some v)"
proof (induction ps arbitrary: acc)
  case Nil
  show ?case by simp
next
  case (Cons p ps)
  obtain a b where p: "p = (a, b)" by (cases p)
  show ?case
    by (simp add: Cons.IH p update_conv' map_add_def split: option.splits)
qed

lemma map_of_object_literal: "map_of (object_literal ps) k = map_of (rev ps) k"
  by (simp add: object_literal_def map_of_foldl_update split: option.splits)

lemma distinct_foldl_update:
  "distinct (map fst acc) \<Longrightarrow>
   distinct (map fst (foldl (\<lambda>obj (k, v). AList.update k v obj) acc ps))"
  by (induction ps arbitrary: acc) (auto simp: distinct_update)

lemma distinct_object_literal: "distinct (map fst (object_literal ps))"
  by (simp add: object_literal_def distinct_foldl_update)

lemma map_of_removeUndefinedProps:
  assumes "distinct (map fst obj)"
  shows "map_of (removeUndefinedProps obj) k =
           (if map_of obj k = Some JUndefined then None else map_of obj k)"
  using assms
proof (induction obj)
  case Nil
  show ?case by (simp add: removeUndefinedProps_def)
next
  case (Cons p obj)
  obtain a b where p: "p = (a, b)" by (cases p)
  from Cons.prems p have fresh: "map_of obj a = None"
    by (simp add: map_of_eq_None_iff)
  from Cons.prems have "distinct (map fst obj)" by simp
  from Cons.IH [OF this] have IH: "map_of (filter (\<lambda>(k, v). v \<noteq> JUndefined) obj) k =
      (if map_of obj k = Some JUndefined then None else map_of obj k)"
    by (simp add: removeUndefinedProps_def)
  show ?case
    using fresh IH by (auto simp: removeUndefinedProps_def p)
qed


lemma map_of_stripped_literal:
  "map_of (removeUndefinedProps (object_literal ps)) k =
     (if map_of (rev ps) k = Some JUndefined then None else map_of (rev ps) k)"
  by (simp add: map_of_removeUndefinedProps distinct_object_literal map_of_object_literal)

lemma comment_record_createdTime:
  "map_of (comment_record extra content user ref replyToCommentId now) ''createdTime'' = Some (JNum now)"
  by (cases extra) (simp_all add: comment_record_def map_of_stripped_literal)

section \<open>Queries: membership and order of the results\<close>

lemma in_set_update_distinct:
  assumes "distinct (map fst al)"
  shows "(a, b) \<in> set (AList.update k v al) \<longleftrightarrow> (a = k \<and> b = v) \<or> (a \<noteq> k \<and> (a, b) \<in> set al)"
proof -
  have d: "distinct (map fst (AList.update k v al))" using assms by (simp add: distinct_update)
  have "(a, b) \<in> set (AList.update k v al) \<longleftrightarrow> map_of (AList.update k v al) a = Some b"
    using d by simp
  also have "\<dots> \<longleftrightarrow> ((map_of al)(k \<mapsto> v)) a = Some b" by (simp add: update_conv')
  also have "\<dots> \<longleftrightarrow> (a = k \<and> b = v) \<or> (a \<noteq> k \<and> (a, b) \<in> set al)"
    using assms by auto
  finally show ?thesis .
qed

lemma last_sort_key_greatest:
  assumes "x \<in> set xs" and "\<forall>y\<in>set xs. y \<noteq> x \<longrightarrow> key y < key x"
  shows "last (sort_key key xs) = x"
proof -
  let ?ys = "sort_key key xs"
  have ne: "?ys \<noteq> []" using assms(1) by (metis empty_iff list.set(1) set_sort)
  have mem: "last ?ys \<in> set xs" using ne by (metis last_in_set set_sort)
  have xin: "x \<in> set ?ys" using assms(1) by simp
  have srt: "sorted (map key ?ys)" by (rule sorted_sort_key)
  have "key x \<le> key (last ?ys)"
  proof -
    obtain i where i: "i < length ?ys" "?ys ! i = x"
      using xin unfolding in_set_conv_nth by blast
    have "map key ?ys ! i \<le> map key ?ys ! (length ?ys - 1)"
      using srt i(1) by (intro sorted_nth_mono) auto
    then show ?thesis using i ne by (simp add: last_conv_nth)
  qed
  moreover have "last ?ys \<noteq> x \<Longrightarrow> key (last ?ys) < key x"
    using assms(2) mem by blast
  ultimately show ?thesis by (meson not_le)
qed

lemma hd_rev_sort_key_greatest:
  assumes "x \<in> set xs" and "\<forall>y\<in>set xs. y \<noteq> x \<longrightarrow> key y < key x"
  shows "\<exists>rest. rev (sort_key key xs) = x # rest"
proof -
  have ne: "sort_key key xs \<noteq> []" using assms(1) by (metis empty_iff list.set(1) set_sort)
  have "rev (butlast (sort_key key xs) @ [last (sort_key key xs)]) =
      last (sort_key key xs) # rev (butlast (sort_key key xs))"
    by simp
  then have "rev (sort_key key xs) = last (sort_key key xs) # rev (butlast (sort_key key xs))"
    using ne by simp
  then show ?thesis using last_sort_key_greatest [OF assms] by blast
qed

lemma sort_value_le_fst: "sort_value f a \<le> sort_value f b \<Longrightarrow> num_field f (snd a) \<le> num_field f (snd b)"
  by (auto simp: sort_value_def less_eq_prod_def)

lemma sorted_fst_sort_key:
  "sorted_wrt (\<lambda>a b. num_field f (snd a) \<le> num_field f (snd b)) (sort_key (sort_value f) es)"
proof -
  have "sorted (map (sort_value f) (sort_key (sort_value f) es))" by (rule sorted_sort_key)
  then have "sorted_wrt (\<lambda>a b. sort_value f a \<le> sort_value f b) (sort_key (sort_value f) es)"
    by (simp add: sorted_map)
  then show ?thesis
    by (rule sorted_wrt_mono_rel [rotated]) (auto dest: sort_value_le_fst)
qed

lemma ordered_desc_sorted:
  "sorted_wrt (\<lambda>a b. num_field f (snd b) \<le> num_field f (snd a)) (ordered (Some (f, Desc)) es)"
  using sorted_fst_sort_key [of f es] by (simp add: sorted_wrt_rev)

lemma run_query_desc_sorted:
  assumes "order_of (constraints_of q) = Some (f, Desc)"
  shows "sorted_wrt (\<lambda>a b. num_field f b \<le> num_field f a) (run_query db q)"
proof -
  let ?es = "ordered (Some (f, Desc)) (matching db q)"
  have "sorted_wrt (\<lambda>a b. num_field f (snd b) \<le> num_field f (snd a)) ?es"
    by (rule ordered_desc_sorted)
  then have "sorted_wrt (\<lambda>a b. num_field f (snd b) \<le> num_field f (snd a))
      (limited (limit_of (constraints_of q)) ?es)"
    by (cases "limit_of (constraints_of q)") simp_all
  then show ?thesis
    by (simp add: run_query_def assms sorted_wrt_map)
qed

lemma set_ordered: "set (ordered ord es) = set es"
  by (cases "(ord, es)" rule: ordered.cases) simp_all

lemma set_limited: "set (limited l es) \<subseteq> set es"
  by (cases l) (auto dest: in_set_takeD)

lemma run_query_subset:
  "set (run_query db q) \<subseteq> snd ` set (matching db q)"
proof -
  have "set (limited (limit_of (constraints_of q))
          (ordered (order_of (constraints_of q)) (matching db q)))
        \<subseteq> set (ordered (order_of (constraints_of q)) (matching db q))"
    by (rule set_limited)
  then have "set (limited (limit_of (constraints_of q))
          (ordered (order_of (constraints_of q)) (matching db q))) \<subseteq> set (matching db q)"
    by (simp only: set_ordered)
  then show ?thesis
    unfolding run_query_def set_map by (rule image_mono)
qed

lemma run_query_satisfies:
  assumes "d \<in> set (run_query db q)"
  shows "list_all (satisfies d) (constraints_of q)"
proof -
  from assms run_query_subset obtain e where "e \<in> set (matching db q)" and "d = snd e"
    by blast
  then show ?thesis by (simp add: matching_def)
qed

section \<open>Listing the comments of a market\<close>

lemma matching_collection_desc:
  "matching db (Query (Collection c) [OrderBy ''createdTime'' Desc]) = stored_comments db c"
  by (simp add: matching_def stored_comments_def)

lemma matching_collection_desc_limit:
  "matching db (Query (Collection c) [OrderBy ''createdTime'' Desc, Limit n]) = stored_comments db c"
  by (simp add: matching_def stored_comments_def)

lemma run_query_collection_desc:
  "run_query db (Query (Collection c) [OrderBy ''createdTime'' Desc]) = newest_first_entries c db"
  by (simp add: run_query_def matching_collection_desc newest_first_entries_def)

lemma run_query_collection_desc_limit:
  "run_query db (Query (Collection c) [OrderBy ''createdTime'' Desc, Limit n]) =
     take (nat n) (newest_first_entries c db)"
  by (simp add: run_query_def matching_collection_desc_limit newest_first_entries_def take_map)

lemma listAllComments_unlimited:
  "listAllComments contractId None w =
     (Inr (newest_first_entries (getCommentsCollection contractId) (documents w)),
      w\<lparr>trace := trace w @
         [GetDocs (Query (Collection (getCommentsCollection contractId))
            [OrderBy ''createdTime'' Desc])]\<rparr>)"
  by (simp add: listAllComments_def getValues_def query_def all_of_def orderBy_def
      run_query_collection_desc)

lemma listAllComments_zero:
  "listAllComments contractId (Some 0) w = listAllComments contractId None w"
  by (simp add: listAllComments_def)

lemma listAllComments_positive:
  "0 < n \<Longrightarrow> listAllComments contractId (Some n) w =
     (Inr (take (nat n) (newest_first_entries (getCommentsCollection contractId) (documents w))),
      w\<lparr>trace := trace w @
         [GetDocs (Query (Collection (getCommentsCollection contractId))
            [OrderBy ''createdTime'' Desc, Limit n])]\<rparr>)"
  by (simp add: listAllComments_def getValues_def query_def all_of_def orderBy_def limit_def
      run_query_collection_desc_limit)

lemma listAllComments_negative:
  "n < 0 \<Longrightarrow> listAllComments contractId (Some n) w = (Inl InvalidArgument, w)"
  by (simp add: listAllComments_def limit_def)

lemma length_newest_first_entries:
  "length (newest_first_entries c db) = length (stored_comments db c)"
  by (simp add: newest_first_entries_def)

lemma set_newest_first_entries:
  "set (newest_first_entries c db) = snd ` set (stored_comments db c)"
  by (simp add: newest_first_entries_def)

lemma newest_first_entries_sorted: "newest_first (newest_first_entries c db)"
  using run_query_desc_sorted [of "Query (Collection c) [OrderBy ''createdTime'' Desc]" "''createdTime''" db]
  by (simp add: run_query_collection_desc newest_first_def createdTime_def)

lemma newest_first_take: "newest_first ds \<Longrightarrow> newest_first (take n ds)"
  by (simp add: newest_first_def)

section \<open>The endpoint: its two branches\<close>



lemma handler_found:
  assumes "contractOfSlug env (query_slug req) = Some c"
  shows "handler env req res w =
    (Inr (),
     (setHeader ''Cache-Control'' ''max-age=0'' (applyCorsHeaders req res CORS_UNRESTRICTED))
       \<lparr>statusCode := 200, body := Some (JObj (market_body env c (documents w)))\<rparr>,
     w\<lparr>trace := trace w @
        [ContractLookup (query_slug req), BetsFetch (contract_id c),
         GetDocs (Query (Collection [''contracts'', contract_id c, ''comments''])
            [OrderBy ''createdTime'' Desc]),
         Responded 200 (JObj (market_body env c (documents w)))]\<rparr>)"
  using assms
  by (simp add: handler_def getContractFromSlug_def listAllBets_def listAllComments_unlimited
      json_def status_def market_body_def setHeader_def Let_def getCommentsCollection_def
      collection_def)

lemma handler_not_found:
  assumes "contractOfSlug env (query_slug req) = None"
  shows "handler env req res w =
    (Inr (),
     (applyCorsHeaders req res CORS_UNRESTRICTED)
       \<lparr>statusCode := 404, body := Some (JObj [(''error'', JStr ''Contract not found'')])\<rparr>,
     w\<lparr>trace := trace w @
        [ContractLookup (query_slug req),
         Responded 404 (JObj [(''error'', JStr ''Contract not found'')])]\<rparr>)"
  using assms
  by (simp add: handler_def getContractFromSlug_def json_def status_def object_literal_def)






section \<open>Creating a comment: the record, the event and the write\<close>

lemma createComment_result:
  "createComment surfaceId extra content user ref replyToCommentId onContractWithBounty w =
     setDoc ref (comment_record extra content user ref replyToCommentId (clock w))
       (w\<lparr>trace := trace w @
          [Track (commentType extra @ '' message'')
             (track_properties surfaceId extra user ref replyToCommentId onContractWithBounty)]\<rparr>)"
  by (simp add: createComment_def track_def Let_def)

lemma setDoc_committed:
  "fst (setDoc ref data w) = Inr () \<Longrightarrow>
   documents (snd (setDoc ref data w)) = AList.update ref data (documents w)"
  by (simp add: setDoc_def split: option.splits)

lemma setDoc_trace:
  "trace (snd (setDoc ref data w)) = trace w @ [SetDoc ref data (writeFault w ref data)]"
  by (simp add: setDoc_def split: option.splits)

lemma setDoc_outcome:
  "fst (setDoc ref data w) = (case writeFault w ref data of None \<Rightarrow> Inr () | Some e \<Rightarrow> Inl e)"
  by (simp add: setDoc_def split: option.splits)





section \<open>The fixed queries\<close>

lemma recentCommentsQuery_value:
  "recentCommentsQuery (load_module w0) =
     Query (CollectionGroup ''comments'')
       [Where ''createdTime'' OpGt (JNum (clock w0 - 259200000)), OrderBy ''createdTime'' Desc]"
  by (simp add: load_module_def query_def collectionGroup_def where_c_def orderBy_def
      DAY_IN_MS_def)

lemma satisfies_recent:
  "satisfies d (Where ''createdTime'' OpGt (JNum b)) \<Longrightarrow> b < createdTime d"
  by (auto simp: createdTime_def num_field_def split: option.splits jsval.splits)

lemma getUserCommentsQuery_value:
  "getUserCommentsQuery userId =
     Query (CollectionGroup ''comments'')
       [Where ''userId'' OpEq (JStr userId), Where ''commentType'' OpEq (JStr ''contract''),
        OrderBy ''createdTime'' Desc]"
  by (simp add: getUserCommentsQuery_def query_def collectionGroup_def where_c_def orderBy_def)

section \<open>A new comment among the stored ones\<close>

lemma stored_comments_update:
  "set (stored_comments (AList.update ref d db) c) =
     {e. e \<in> set (stored_comments db c) \<and> fst e \<noteq> ref} \<union>
     (if collection_of ref = c \<and>
         (case map_of d ''createdTime'' of Some (JNum a) \<Rightarrow> True | _ \<Rightarrow> False)
      then {(ref, d)} else {})"
proof -
  have d: "distinct (map fst (AList.clearjunk db))" by (rule distinct_clearjunk)
  have "\<And>a b. (a, b) \<in> set (AList.clearjunk (AList.update ref d db)) \<longleftrightarrow>
      (a = ref \<and> b = d) \<or> (a \<noteq> ref \<and> (a, b) \<in> set (AList.clearjunk db))"
    by (simp add: clearjunk_update in_set_update_distinct [OF d])
  then show ?thesis
    by (auto simp: stored_comments_def)
qed

lemma createdTime_comment_record:
  "createdTime (comment_record extra content user ref replyToCommentId now) = now"
  by (simp add: createdTime_def num_field_def comment_record_createdTime)

lemma sort_value_older:
  "createdTime (snd y) < createdTime (snd x) \<Longrightarrow>
   sort_value ''createdTime'' y < sort_value ''createdTime'' x"
  by (simp add: sort_value_def createdTime_def less_prod_def)

lemma newest_first_entries_written:
  assumes "others_older db ref now"
  shows "\<exists>rest. newest_first_entries (collection_of ref)
             (AList.update ref (comment_record extra content user ref replyToCommentId now) db) =
           comment_record extra content user ref replyToCommentId now # rest"
proof -
  let ?d = "comment_record extra content user ref replyToCommentId now"
  let ?es = "stored_comments (AList.update ref ?d db) (collection_of ref)"
  have set_es: "set ?es =
      {e. e \<in> set (stored_comments db (collection_of ref)) \<and> fst e \<noteq> ref} \<union> {(ref, ?d)}"
    by (simp add: stored_comments_update comment_record_createdTime)
  then have mem: "(ref, ?d) \<in> set ?es" by simp
  have greatest: "\<forall>y\<in>set ?es. y \<noteq> (ref, ?d) \<longrightarrow>
      sort_value ''createdTime'' y < sort_value ''createdTime'' (ref, ?d)"
  proof (intro ballI impI)
    fix y
    assume y: "y \<in> set ?es" and ne: "y \<noteq> (ref, ?d)"
    with set_es have old: "y \<in> set (stored_comments db (collection_of ref))" and other: "fst y \<noteq> ref"
      by auto
    from assms old other have "createdTime (snd y) < now"
      by (auto simp: others_older_def list_all_iff)
    then show "sort_value ''createdTime'' y < sort_value ''createdTime'' (ref, ?d)"
      by (intro sort_value_older) (simp add: createdTime_comment_record)
  qed
  from hd_rev_sort_key_greatest [OF mem greatest]
  obtain rest where "rev (sort_key (sort_value ''createdTime'') ?es) = (ref, ?d) # rest"
    by blast
  then show ?thesis by (simp add: newest_first_entries_def)
qed

lemma doc_world:
  "documents (snd (doc c w)) = documents w" "clock (snd (doc c w)) = clock w"
  "collection_of (fst (doc c w)) = c"
  by (simp_all add: doc_def)

lemma createComment_then_newest:
  assumes "fst (createComment surfaceId extra content user ref replyToCommentId
             onContractWithBounty w) = Inr ()"
    and "others_older (documents w) ref (clock w)"
  shows "\<exists>rest. newest_first_entries (collection_of ref)
           (documents (snd (createComment surfaceId extra content user ref replyToCommentId
              onContractWithBounty w))) =
         comment_record extra content user ref replyToCommentId (clock w) # rest"
proof -
  from assms(1) have "documents (snd (createComment surfaceId extra content user ref
      replyToCommentId onContractWithBounty w)) =
      AList.update ref (comment_record extra content user ref replyToCommentId (clock w))
        (documents w)"
    by (simp add: createComment_result setDoc_committed)
  then show ?thesis
    using newest_first_entries_written [OF assms(2)] by simp
qed

lemma createCommentOnContract_unfold:
  "createCommentOnContract contractId content user onContractWithBounty answerOutcome
       replyToCommentId w =
     createComment contractId (OnContract contractId answerOutcome) content user
       (fst (doc (getCommentsCollection contractId) w)) replyToCommentId
       (Some onContractWithBounty) (snd (doc (getCommentsCollection contractId) w))"
  by (simp add: createCommentOnContract_def Let_def split: prod.splits)

lemma createCommentOnGroup_unfold:
  "createCommentOnGroup groupId content user replyToCommentId w =
     createComment groupId (OnGroup groupId) content user
       (fst (doc (getCommentsOnGroupCollection groupId) w)) replyToCommentId None
       (snd (doc (getCommentsOnGroupCollection groupId) w))"
  by (simp add: createCommentOnGroup_def Let_def split: prod.splits)

lemma createCommentOnPost_unfold:
  "createCommentOnPost postId content user replyToCommentId w =
     createComment postId (OnPost postId) content user
       (fst (doc (getCommentsOnPostCollection postId) w)) replyToCommentId None
       (snd (doc (getCommentsOnPostCollection postId) w))"
  by (simp add: createCommentOnPost_def Let_def split: prod.splits)

lemma listAllCommentsOnGroup_result:
  "fst (listAllCommentsOnGroup groupId w) =
     newest_first_entries (getCommentsOnGroupCollection groupId) (documents w)"
  by (simp add: listAllCommentsOnGroup_def getValues_def query_def all_of_def orderBy_def
      run_query_collection_desc)

lemma listAllCommentsOnPost_result:
  "fst (listAllCommentsOnPost postId w) =
     newest_first_entries (getCommentsOnPostCollection postId) (documents w)"
  by (simp add: listAllCommentsOnPost_def getValues_def query_def all_of_def orderBy_def
      run_query_collection_desc)

lemma created_comment_listed_first:
  "(fst (createCommentOnContract contractId content user onContractWithBounty answerOutcome
           replyToCommentId w) = Inr () \<and>
    others_older (documents w) (fst (doc (getCommentsCollection contractId) w)) (clock w) \<longrightarrow>
      (\<exists>rest. fst (listAllComments contractId None
                 (snd (createCommentOnContract contractId content user onContractWithBounty
                    answerOutcome replyToCommentId w))) =
         Inr (comment_record (OnContract contractId answerOutcome) content user
                (fst (doc (getCommentsCollection contractId) w)) replyToCommentId (clock w)
              # rest))) \<and>
   (fst (createCommentOnGroup groupId content user replyToCommentId w) = Inr () \<and>
    others_older (documents w) (fst (doc (getCommentsOnGroupCollection groupId) w)) (clock w) \<longrightarrow>
      (\<exists>rest. fst (listAllCommentsOnGroup groupId
                 (snd (createCommentOnGroup groupId content user replyToCommentId w))) =
         comment_record (OnGroup groupId) content user
           (fst (doc (getCommentsOnGroupCollection groupId) w)) replyToCommentId (clock w)
         # rest)) \<and>
   (fst (createCommentOnPost postId content user replyToCommentId w) = Inr () \<and>
    others_older (documents w) (fst (doc (getCommentsOnPostCollection postId) w)) (clock w) \<longrightarrow>
      (\<exists>rest. fst (listAllCommentsOnPost postId
                 (snd (createCommentOnPost postId content user replyToCommentId w))) =
         comment_record (OnPost postId) content user
           (fst (doc (getCommentsOnPostCollection postId) w)) replyToCommentId (clock w)
         # rest))"
proof (intro conjI impI)
  assume a: "fst (createCommentOnContract contractId content user onContractWithBounty
      answerOutcome replyToCommentId w) = Inr () \<and>
    others_older (documents w) (fst (doc (getCommentsCollection contractId) w)) (clock w)"
  let ?ref = "fst (doc (getCommentsCollection contractId) w)"
  let ?w1 = "snd (doc (getCommentsCollection contractId) w)"
  from a have "fst (createComment contractId (OnContract contractId answerOutcome) content user
      ?ref replyToCommentId (Some onContractWithBounty) ?w1) = Inr ()"
    and "others_older (documents ?w1) ?ref (clock ?w1)"
    by (simp_all add: createCommentOnContract_unfold doc_world)
  from createComment_then_newest [OF this]
  show "\<exists>rest. fst (listAllComments contractId None
                 (snd (createCommentOnContract contractId content user onContractWithBounty
                    answerOutcome replyToCommentId w))) =
         Inr (comment_record (OnContract contractId answerOutcome) content user ?ref
                replyToCommentId (clock w) # rest)"
    by (simp add: createCommentOnContract_unfold doc_world listAllComments_unlimited)
next
  assume a: "fst (createCommentOnGroup groupId content user replyToCommentId w) = Inr () \<and>
    others_older (documents w) (fst (doc (getCommentsOnGroupCollection groupId) w)) (clock w)"
  let ?ref = "fst (doc (getCommentsOnGroupCollection groupId) w)"
  let ?w1 = "snd (doc (getCommentsOnGroupCollection groupId) w)"
  from a have "fst (createComment groupId (OnGroup groupId) content user
      ?ref replyToCommentId None ?w1) = Inr ()"
    and "others_older (documents ?w1) ?ref (clock ?w1)"
    by (simp_all add: createCommentOnGroup_unfold doc_world)
  from createComment_then_newest [OF this]
  show "\<exists>rest. fst (listAllCommentsOnGroup groupId
                 (snd (createCommentOnGroup groupId content user replyToCommentId w))) =
         comment_record (OnGroup groupId) content user ?ref replyToCommentId (clock w) # rest"
    by (simp add: createCommentOnGroup_unfold doc_world listAllCommentsOnGroup_result)
next
  assume a: "fst (createCommentOnPost postId content user replyToCommentId w) = Inr () \<and>
    others_older (documents w) (fst (doc (getCommentsOnPostCollection postId) w)) (clock w)"
  let ?ref = "fst (doc (getCommentsOnPostCollection postId) w)"
  let ?w1 = "snd (doc (getCommentsOnPostCollection postId) w)"
  from a have "fst (createComment postId (OnPost postId) content user
      ?ref replyToCommentId None ?w1) = Inr ()"
    and "others_older (documents ?w1) ?ref (clock ?w1)"
    by (simp_all add: createCommentOnPost_unfold doc_world)
  from createComment_then_newest [OF this]
  show "\<exists>rest. fst (listAllCommentsOnPost postId
                 (snd (createCommentOnPost postId content user replyToCommentId w))) =
         comment_record (OnPost postId) content user ?ref replyToCommentId (clock w) # rest"
    by (simp add: createCommentOnPost_unfold doc_world listAllCommentsOnPost_result)
qed

section \<open>The claims\<close>

text \<open>
  C10. When \<open>listAllComments\<close> is called with \<open>maxCount = 0\<close>, the limit clause is not
  applied: the call is the call with the count omitted, its one read is the query on
  \<open>contracts/<id>/comments\<close> ordered by creation time descending with no limit, and it
  returns all of the market's comments (as many results as are stored under that path, and
  exactly those) rather than zero results.
\<close>

theorem listAllComments_zero_is_unlimited:
  "listAllComments contractId (Some 0) w = listAllComments contractId None w \<and>
   added w (snd (listAllComments contractId (Some 0) w)) =
     [GetDocs (Query (Collection [''contracts'', contractId, ''comments''])
        [OrderBy ''createdTime'' Desc])] \<and>
   (\<exists>rs. fst (listAllComments contractId (Some 0) w) = Inr rs \<and>
      length rs = length (stored_comments (documents w) [''contracts'', contractId, ''comments'']) \<and>
      set rs = snd ` set (stored_comments (documents w) [''contracts'', contractId, ''comments'']))"
  by (simp add: listAllComments_zero listAllComments_unlimited length_newest_first_entries
      set_newest_first_entries added_def getCommentsCollection_def collection_def)

theorem listAllComments_zero_is_unlimited_witness:
  "fst (listAllComments ''c1'' (Some 0) example_world) =
     Inr [[(''id'', JStr ''z''), (''userId'', JStr ''u2''), (''createdTime'', JNum 4),
           (''commentType'', JStr ''contract''), (''contractId'', JStr ''c1'')],
          [(''id'', JStr ''k''), (''userId'', JStr ''u1''), (''createdTime'', JNum 3),
           (''commentType'', JStr ''contract''), (''contractId'', JStr ''c1'')]] \<and>
   fst (listAllComments ''c1'' None example_world) = fst (listAllComments ''c1'' (Some 0) example_world) \<and>
   length (stored_comments (documents example_world) [''contracts'', ''c1'', ''comments'']) = 2 \<and>
   fst (listAllComments ''c2'' (Some 0) example_world) = Inr [] \<and>
   length (stored_comments (documents example_world) [''contracts'', ''c2'', ''comments'']) = 0"
  using listAllComments_zero_is_unlimited [of "''c1''" example_world]
    listAllComments_zero_is_unlimited [of "''c2''" example_world]
  by (simp add: listAllComments_def getValues_def query_def all_of_def orderBy_def
      run_query_def matching_def stored_comments_def example_world_def c1_comments_def
      getCommentsCollection_def collection_def sort_value_def num_field_def path_def
      AList.delete_eq added_def)

text \<open>
  C1, as amended. For every market id and every supplied positive maximum count \<open>n\<close>,
  \<open>listAllComments\<close> returns no more than \<open>n\<close> results: exactly \<open>min n total\<close> of them, the
  first of the market's comments in descending order of creation time. When the count is
  omitted, all of the market's comments are returned, in that order.
\<close>

theorem listAllComments_bounded:
  "(0 < n \<longrightarrow>
      (\<exists>rs. fst (listAllComments contractId (Some n) w) = Inr rs \<and>
         length rs \<le> nat n \<and>
         length rs = min (nat n)
           (length (stored_comments (documents w) [''contracts'', contractId, ''comments''])) \<and>
         rs = take (nat n)
           (newest_first_entries [''contracts'', contractId, ''comments''] (documents w)) \<and>
         newest_first rs)) \<and>
   (\<exists>rs. fst (listAllComments contractId None w) = Inr rs \<and>
      length rs = length (stored_comments (documents w) [''contracts'', contractId, ''comments'']) \<and>
      set rs = snd ` set (stored_comments (documents w) [''contracts'', contractId, ''comments'']) \<and>
      newest_first rs)"
  by (simp add: listAllComments_positive listAllComments_unlimited length_newest_first_entries
      set_newest_first_entries newest_first_entries_sorted newest_first_take min.commute
      getCommentsCollection_def collection_def)

theorem listAllComments_bounded_witness:
  "(0::int) < 1 \<and>
   fst (listAllComments ''c1'' (Some 1) example_world) = Inr [comment_z] \<and>
   fst (listAllComments ''c1'' None example_world) = Inr [comment_z, comment_k] \<and>
   length (stored_comments (documents example_world) [''contracts'', ''c1'', ''comments'']) = 2"
  using listAllComments_bounded [of 1 "''c1''" example_world]
  by (simp add: listAllComments_def getValues_def query_def all_of_def orderBy_def limit_def
      run_query_def matching_def stored_comments_def example_world_def c1_comments_def
      getCommentsCollection_def collection_def sort_value_def num_field_def path_def
      AList.delete_eq comment_z_def comment_k_def)

text \<open>
  C1 as stated fails at \<open>n = 0\<close>: the market has two comments and both are returned, more
  than the count and more than \<open>min 0 2\<close>.
\<close>

theorem listAllComments_zero_counterexample:
  "fst (listAllComments ''c1'' (Some 0) example_world) = Inr [comment_z, comment_k] \<and>
   \<not> length [comment_z, comment_k] \<le> nat 0 \<and>
   length [comment_z, comment_k] \<noteq>
     min (nat 0) (length (stored_comments (documents example_world) [''contracts'', ''c1'', ''comments'']))"
  by (simp add: listAllComments_def getValues_def query_def all_of_def orderBy_def limit_def
      run_query_def matching_def stored_comments_def example_world_def c1_comments_def
      getCommentsCollection_def collection_def sort_value_def num_field_def path_def
      AList.delete_eq comment_z_def comment_k_def)

text \<open>
  C3. When the slug of the request resolves to no market, the handler responds with status
  404 and the body \<open>{ error: 'Contract not found' }\<close>; the only effects of the call are the
  slug lookup and that response, so it performs no bets fetch and no comments fetch.
\<close>

theorem handler_unknown_slug:
  assumes "contractOfSlug env (query_slug req) = None"
  shows "\<exists>res' w'. handler env req res w = (Inr (), res', w') \<and>
           statusCode res' = 404 \<and>
           body res' = Some (JObj [(''error'', JStr ''Contract not found'')]) \<and>
           added w w' = [ContractLookup (query_slug req),
                         Responded 404 (JObj [(''error'', JStr ''Contract not found'')])] \<and>
           \<not> list_ex is_fetch (added w w') \<and>
           documents w' = documents w"
  using assms
  by (simp add: handler_def getContractFromSlug_def json_def status_def added_def
      object_literal_def)

theorem handler_unknown_slug_witness:
  "contractOfSlug example_env (query_slug \<lparr>query_slug = ''unknown-slug''\<rparr>) = None \<and>
   fst (handler example_env \<lparr>query_slug = ''unknown-slug''\<rparr> fresh_response example_world) = Inr () \<and>
   statusCode (fst (snd (handler example_env \<lparr>query_slug = ''unknown-slug''\<rparr> fresh_response example_world))) = 404 \<and>
   trace (snd (snd (handler example_env \<lparr>query_slug = ''unknown-slug''\<rparr> fresh_response example_world))) =
     [ContractLookup ''unknown-slug'',
      Responded 404 (JObj [(''error'', JStr ''Contract not found'')])]"
  using handler_unknown_slug [of example_env "\<lparr>query_slug = ''unknown-slug''\<rparr>" fresh_response example_world]
  by (simp add: example_env_def example_world_def added_def handler_def getContractFromSlug_def json_def status_def
      object_literal_def fresh_response_def)




text \<open>
  C5, as amended. Every response of the endpoint, the 404 as well as the 200, carries the
  any-origin CORS header; the 200 response also carries the no-cache directive
  \<open>Cache-Control: max-age=0\<close>, which the handler does not set on the 404 response: there the
  headers are the incoming ones with the CORS header added.
\<close>

theorem handler_headers:
  "\<exists>res' w'. handler env req res w = (Inr (), res', w') \<and>
      body res' \<noteq> None \<and>
      map_of (headers res') ''Access-Control-Allow-Origin'' = Some ''*'' \<and>
      (contractOfSlug env (query_slug req) \<noteq> None \<longrightarrow>
         statusCode res' = 200 \<and> map_of (headers res') ''Cache-Control'' = Some ''max-age=0'') \<and>
      (contractOfSlug env (query_slug req) = None \<longrightarrow>
         statusCode res' = 404 \<and>
         headers res' = AList.update ''Access-Control-Allow-Origin'' ''*'' (headers res))"
proof (cases "contractOfSlug env (query_slug req)")
  case None
  then show ?thesis
    by (simp add: handler_not_found CORS_UNRESTRICTED_def setHeader_def update_conv')
next
  case (Some c)
  then show ?thesis
    by (simp add: handler_found CORS_UNRESTRICTED_def setHeader_def update_conv')
qed

theorem handler_headers_witness:
  "headers (fst (snd (handler example_env \<lparr>query_slug = ''valid-slug''\<rparr> fresh_response example_world))) =
     [(''Access-Control-Allow-Origin'', ''*''), (''Cache-Control'', ''max-age=0'')] \<and>
   contractOfSlug example_env (query_slug \<lparr>query_slug = ''valid-slug''\<rparr>) \<noteq> None \<and>
   headers (fst (snd (handler example_env \<lparr>query_slug = ''missing''\<rparr> fresh_response example_world))) =
     [(''Access-Control-Allow-Origin'', ''*'')] \<and>
   contractOfSlug example_env (query_slug \<lparr>query_slug = ''missing''\<rparr>) = None"
  using handler_headers [of example_env "\<lparr>query_slug = ''valid-slug''\<rparr>" fresh_response example_world]
    handler_headers [of example_env "\<lparr>query_slug = ''missing''\<rparr>" fresh_response example_world]
  by (simp add: example_env_def handler_found handler_not_found CORS_UNRESTRICTED_def
      setHeader_def fresh_response_def)

text \<open>
  C5 as stated fails on the not-found branch: the 404 response to an unknown slug carries
  the CORS header only, and no \<open>Cache-Control\<close> header.
\<close>

theorem handler_not_found_uncached_counterexample:
  "statusCode (fst (snd (handler example_env \<lparr>query_slug = ''unknown-slug''\<rparr> fresh_response example_world))) = 404 \<and>
   body (fst (snd (handler example_env \<lparr>query_slug = ''unknown-slug''\<rparr> fresh_response example_world))) =
     Some (JObj [(''error'', JStr ''Contract not found'')]) \<and>
   headers (fst (snd (handler example_env \<lparr>query_slug = ''unknown-slug''\<rparr> fresh_response example_world))) =
     [(''Access-Control-Allow-Origin'', ''*'')] \<and>
   map_of (headers (fst (snd (handler example_env \<lparr>query_slug = ''unknown-slug''\<rparr> fresh_response example_world))))
     ''Cache-Control'' = None"
  by (simp add: example_env_def handler_def getContractFromSlug_def json_def status_def
      object_literal_def CORS_UNRESTRICTED_def setHeader_def fresh_response_def)



text \<open>
  C7. Every invocation of the shared creation routine adds exactly two effects, in this
  order: the analytics event, then the document write with whatever outcome the store gives
  it. The event is there whether the write commits or is rejected. Its name is
  \<open>contract message\<close>, \<open>group message\<close> or \<open>post message\<close>, after the \<open>commentType\<close> the
  record is written with. Its properties are the user, the new comment's id, the parent id,
  the reply-target id when there is one, and the bounty flag for contract comments only, and
  nothing else.
\<close>

theorem createComment_tracks_before_write:
  "fst (createComment surfaceId extra content user ref replyToCommentId onContractWithBounty w) =
     (case writeFault w ref (comment_record extra content user ref replyToCommentId (clock w)) of
        None \<Rightarrow> Inr () | Some e \<Rightarrow> Inl e) \<and>
   added w (snd (createComment surfaceId extra content user ref replyToCommentId
      onContractWithBounty w)) =
     [Track (case extra of
               OnContract contractId answerOutcome \<Rightarrow> ''contract message''
             | OnGroup groupId \<Rightarrow> ''group message''
             | OnPost postId \<Rightarrow> ''post message'')
        (track_properties surfaceId extra user ref replyToCommentId onContractWithBounty),
      SetDoc ref (comment_record extra content user ref replyToCommentId (clock w))
        (writeFault w ref (comment_record extra content user ref replyToCommentId (clock w)))] \<and>
   map_of (comment_record extra content user ref replyToCommentId (clock w)) ''commentType'' =
     Some (JStr (case extra of
                   OnContract contractId answerOutcome \<Rightarrow> ''contract''
                 | OnGroup groupId \<Rightarrow> ''group''
                 | OnPost postId \<Rightarrow> ''post'')) \<and>
   map_of (track_properties surfaceId extra user ref replyToCommentId onContractWithBounty)
     ''user'' = Some (JObj user) \<and>
   map_of (track_properties surfaceId extra user ref replyToCommentId onContractWithBounty)
     ''commentId'' = Some (JStr (id_of ref)) \<and>
   map_of (track_properties surfaceId extra user ref replyToCommentId onContractWithBounty)
     ''surfaceId'' = Some (JStr surfaceId) \<and>
   map_of (track_properties surfaceId extra user ref replyToCommentId onContractWithBounty)
     ''replyToCommentId'' = map_option JStr replyToCommentId \<and>
   map_of (track_properties surfaceId extra user ref replyToCommentId onContractWithBounty)
     ''onContractWithBounty'' =
       (case extra of
          OnContract contractId answerOutcome \<Rightarrow> map_option JBool onContractWithBounty
        | OnGroup groupId \<Rightarrow> None
        | OnPost postId \<Rightarrow> None) \<and>
   fst ` set (track_properties surfaceId extra user ref replyToCommentId onContractWithBounty)
     \<subseteq> {''user'', ''commentId'', ''surfaceId'', ''replyToCommentId'', ''onContractWithBounty''}"
proof -
  have t: "added w (snd (createComment surfaceId extra content user ref replyToCommentId
      onContractWithBounty w)) =
     [Track (case extra of
               OnContract contractId answerOutcome \<Rightarrow> ''contract message''
             | OnGroup groupId \<Rightarrow> ''group message''
             | OnPost postId \<Rightarrow> ''post message'')
        (track_properties surfaceId extra user ref replyToCommentId onContractWithBounty),
      SetDoc ref (comment_record extra content user ref replyToCommentId (clock w))
        (writeFault w ref (comment_record extra content user ref replyToCommentId (clock w)))]"
    by (cases extra) (simp_all add: createComment_result setDoc_trace added_def)
  have r: "fst (createComment surfaceId extra content user ref replyToCommentId onContractWithBounty w) =
     (case writeFault w ref (comment_record extra content user ref replyToCommentId (clock w)) of
        None \<Rightarrow> Inr () | Some e \<Rightarrow> Inl e)"
    by (simp add: createComment_result setDoc_outcome)
  have c: "map_of (comment_record extra content user ref replyToCommentId (clock w))
      ''commentType'' =
     Some (JStr (case extra of
                   OnContract contractId answerOutcome \<Rightarrow> ''contract''
                 | OnGroup groupId \<Rightarrow> ''group''
                 | OnPost postId \<Rightarrow> ''post''))"
    by (cases extra) (simp_all add: comment_record_def map_of_stripped_literal)
  have p: "map_of (track_properties surfaceId extra user ref replyToCommentId onContractWithBounty)
     ''replyToCommentId'' = map_option JStr replyToCommentId"
    by (cases replyToCommentId) (simp_all add: track_properties_def map_of_stripped_literal optional_def)
  have b: "map_of (track_properties surfaceId extra user ref replyToCommentId onContractWithBounty)
     ''onContractWithBounty'' =
       (case extra of
          OnContract contractId answerOutcome \<Rightarrow> map_option JBool onContractWithBounty
        | OnGroup groupId \<Rightarrow> None
        | OnPost postId \<Rightarrow> None)"
    by (cases extra; cases onContractWithBounty)
      (simp_all add: track_properties_def map_of_stripped_literal optional_def)
  have k: "fst ` set (track_properties surfaceId extra user ref replyToCommentId
      onContractWithBounty)
     \<subseteq> {''user'', ''commentId'', ''surfaceId'', ''replyToCommentId'', ''onContractWithBounty''}"
    by (auto simp: track_properties_def removeUndefinedProps_def object_literal_def
        split: if_splits)
  show ?thesis
    using t r c p b k by (simp add: track_properties_def map_of_stripped_literal)
qed

theorem createComment_tracks_before_write_witness:
  "createCommentOnContract ''c1'' (JStr ''hello'') alice True None None rejecting_world =
     (Inl PermissionDenied,
      rejecting_world\<lparr>allocated := 1,
        trace :=
          [Track ''contract message''
             [(''user'', JObj alice), (''commentId'', JStr ''a''), (''surfaceId'', JStr ''c1''),
              (''onContractWithBounty'', JBool True)],
           SetDoc (DocumentReference [''contracts'', ''c1'', ''comments''] ''a'')
             [(''id'', JStr ''a''), (''userId'', JStr ''u1''), (''content'', JStr ''hello''),
              (''createdTime'', JNum 10), (''userName'', JStr ''Alice''),
              (''userUsername'', JStr ''alice''), (''commentType'', JStr ''contract''),
              (''contractId'', JStr ''c1'')]
             (Some PermissionDenied)]\<rparr>) \<and>
   createCommentOnGroup ''g1'' (JStr ''hello'') alice (Some ''m'') rejecting_world =
     (Inl PermissionDenied,
      rejecting_world\<lparr>allocated := 1,
        trace :=
          [Track ''group message''
             [(''user'', JObj alice), (''commentId'', JStr ''a''), (''surfaceId'', JStr ''g1''),
              (''replyToCommentId'', JStr ''m'')],
           SetDoc (DocumentReference [''groups'', ''g1'', ''comments''] ''a'')
             [(''id'', JStr ''a''), (''userId'', JStr ''u1''), (''content'', JStr ''hello''),
              (''createdTime'', JNum 10), (''userName'', JStr ''Alice''),
              (''userUsername'', JStr ''alice''), (''replyToCommentId'', JStr ''m''),
              (''commentType'', JStr ''group''), (''groupId'', JStr ''g1'')]
             (Some PermissionDenied)]\<rparr>) \<and>
   createCommentOnPost ''p1'' (JStr ''hello'') alice None example_world =
     (Inr (),
      example_world\<lparr>allocated := 1,
        documents := documents example_world @
          [(DocumentReference [''posts'', ''p1'', ''comments''] ''a'',
            [(''id'', JStr ''a''), (''userId'', JStr ''u1''), (''content'', JStr ''hello''),
             (''createdTime'', JNum 10), (''userName'', JStr ''Alice''),
             (''userUsername'', JStr ''alice''), (''postId'', JStr ''p1''),
             (''commentType'', JStr ''post'')])],
        trace :=
          [Track ''post message''
             [(''user'', JObj alice), (''commentId'', JStr ''a''), (''surfaceId'', JStr ''p1'')],
           SetDoc (DocumentReference [''posts'', ''p1'', ''comments''] ''a'')
             [(''id'', JStr ''a''), (''userId'', JStr ''u1''), (''content'', JStr ''hello''),
              (''createdTime'', JNum 10), (''userName'', JStr ''Alice''),
              (''userUsername'', JStr ''alice''), (''postId'', JStr ''p1''),
              (''commentType'', JStr ''post'')]
             None]\<rparr>)"
  using createComment_tracks_before_write [of "''c1''" "OnContract ''c1'' None" "JStr ''hello''"
      alice "DocumentReference [''contracts'', ''c1'', ''comments''] ''a''" None "Some True"
      "rejecting_world\<lparr>allocated := 1\<rparr>"]
    createComment_tracks_before_write [of "''g1''" "OnGroup ''g1''" "JStr ''hello''" alice
      "DocumentReference [''groups'', ''g1'', ''comments''] ''a''" "Some ''m''" None
      "rejecting_world\<lparr>allocated := 1\<rparr>"]
  by (simp add: createCommentOnContract_def createCommentOnGroup_def createCommentOnPost_def
      doc_def getCommentsCollection_def getCommentsOnGroupCollection_def
      getCommentsOnPostCollection_def collection_def
      createComment_def track_def setDoc_def comment_record_def track_properties_def
      removeUndefinedProps_def object_literal_def optional_def get_prop_def alice_def
      rejecting_world_def example_world_def added_def Let_def c1_comments_def)

text \<open>
  C8. The recent-comments query is fixed when the module is loaded: its lower bound is the
  clock of that moment minus three days (259200000 ms). The one-shot accessor runs that very
  query and the subscription accessor subscribes to it, whatever the clock reads when they
  are called: setting the clock of the calling world to any \<open>t\<close> changes neither, and every
  comment returned was created after the bound of load time.
\<close>

theorem recentCommentsQuery_fixed:
  "recentCommentsQuery (load_module w0) =
     Query (CollectionGroup ''comments'')
       [Where ''createdTime'' OpGt (JNum (clock w0 - 259200000)), OrderBy ''createdTime'' Desc] \<and>
   fst (getRecentComments (load_module w0) w) =
     run_query (documents w) (recentCommentsQuery (load_module w0)) \<and>
   fst (listenForRecentComments (load_module w0) setComments w) =
     Subscription (recentCommentsQuery (load_module w0)) setComments \<and>
   fst (getRecentComments (load_module w0) (w\<lparr>clock := t\<rparr>)) =
     fst (getRecentComments (load_module w0) w) \<and>
   fst (listenForRecentComments (load_module w0) setComments (w\<lparr>clock := t\<rparr>)) =
     fst (listenForRecentComments (load_module w0) setComments w) \<and>
   list_all (\<lambda>d. clock w0 - 259200000 < createdTime d)
     (fst (getRecentComments (load_module w0) w))"
proof -
  have "\<And>d. d \<in> set (run_query (documents w) (recentCommentsQuery (load_module w0))) \<Longrightarrow>
      clock w0 - 259200000 < createdTime d"
  proof -
    fix d
    assume "d \<in> set (run_query (documents w) (recentCommentsQuery (load_module w0)))"
    then have "list_all (satisfies d) (constraints_of (recentCommentsQuery (load_module w0)))"
      by (rule run_query_satisfies)
    then have "satisfies d (Where ''createdTime'' OpGt (JNum (clock w0 - 259200000)))"
      by (simp add: recentCommentsQuery_value)
    then show "clock w0 - 259200000 < createdTime d" by (rule satisfies_recent)
  qed
  then have "list_all (\<lambda>d. clock w0 - 259200000 < createdTime d)
     (run_query (documents w) (recentCommentsQuery (load_module w0)))"
    by (simp add: list_all_iff)
  then show ?thesis
    by (simp add: getRecentComments_def listenForRecentComments_def getValues_def
        listenForValues_def recentCommentsQuery_value)
qed

theorem recentCommentsQuery_fixed_witness:
  "recentCommentsQuery (load_module (example_world\<lparr>clock := 259200005\<rparr>)) =
     Query (CollectionGroup ''comments'')
       [Where ''createdTime'' OpGt (JNum 5), OrderBy ''createdTime'' Desc] \<and>
   fst (getRecentComments (load_module (example_world\<lparr>clock := 259200005\<rparr>))
          (example_world\<lparr>clock := 900000000000\<rparr>)) = [comment_n, comment_m]"
  using recentCommentsQuery_fixed [of "example_world\<lparr>clock := 259200005\<rparr>"
      "example_world\<lparr>clock := 900000000000\<rparr>" "\<lambda>ds s. s" 0]
  by (simp add: load_module_def query_def collectionGroup_def where_c_def orderBy_def
      DAY_IN_MS_def getRecentComments_def getValues_def run_query_def matching_def
      example_world_def c1_comments_def sort_value_def num_field_def path_def AList.delete_eq
      comment_m_def comment_n_def createdTime_def listenForRecentComments_def listenForValues_def)

text \<open>
  C9. \<open>getUserCommentsQuery\<close> returns a query value (it takes no world and runs nothing).
  Executed on any store, the query returns only records whose \<open>userId\<close> is the requested id
  and whose \<open>commentType\<close> is \<open>contract\<close>, hence no group or post comment, most recent first;
  the execution is the one read added to the trace.
\<close>

theorem getUserCommentsQuery_results:
  "getUserCommentsQuery userId =
     Query (CollectionGroup ''comments'')
       [Where ''userId'' OpEq (JStr userId), Where ''commentType'' OpEq (JStr ''contract''),
        OrderBy ''createdTime'' Desc] \<and>
   list_all (\<lambda>d. get_prop d ''userId'' = JStr userId \<and>
                 get_prop d ''commentType'' = JStr ''contract'' \<and>
                 get_prop d ''commentType'' \<noteq> JStr ''group'' \<and>
                 get_prop d ''commentType'' \<noteq> JStr ''post'')
     (fst (getValues (getUserCommentsQuery userId) w)) \<and>
   newest_first (fst (getValues (getUserCommentsQuery userId) w)) \<and>
   added w (snd (getValues (getUserCommentsQuery userId) w)) = [GetDocs (getUserCommentsQuery userId)]"
proof -
  have "\<And>d. d \<in> set (run_query (documents w) (getUserCommentsQuery userId)) \<Longrightarrow>
      get_prop d ''userId'' = JStr userId \<and> get_prop d ''commentType'' = JStr ''contract''"
  proof -
    fix d
    assume "d \<in> set (run_query (documents w) (getUserCommentsQuery userId))"
    then have "list_all (satisfies d) (constraints_of (getUserCommentsQuery userId))"
      by (rule run_query_satisfies)
    then show "get_prop d ''userId'' = JStr userId \<and> get_prop d ''commentType'' = JStr ''contract''"
      by (simp add: getUserCommentsQuery_value get_prop_def)
  qed
  then have f: "list_all (\<lambda>d. get_prop d ''userId'' = JStr userId \<and>
                 get_prop d ''commentType'' = JStr ''contract'' \<and>
                 get_prop d ''commentType'' \<noteq> JStr ''group'' \<and>
                 get_prop d ''commentType'' \<noteq> JStr ''post'')
     (run_query (documents w) (getUserCommentsQuery userId))"
    by (simp add: list_all_iff)
  have s: "newest_first (run_query (documents w) (getUserCommentsQuery userId))"
    using run_query_desc_sorted [of "getUserCommentsQuery userId" "''createdTime''" "documents w"]
    by (simp add: getUserCommentsQuery_value newest_first_def createdTime_def)
  from f s show ?thesis
    by (simp add: getValues_def added_def getUserCommentsQuery_value [symmetric])
qed

theorem getUserCommentsQuery_results_witness:
  "fst (getValues (getUserCommentsQuery ''u1'') example_world) = [comment_k] \<and>
   get_prop comment_m ''userId'' = JStr ''u1'' \<and>
   get_prop comment_n ''userId'' = JStr ''u1'' \<and>
   map_of (documents example_world) (DocumentReference [''groups'', ''g1'', ''comments''] ''m'') =
     Some comment_m \<and>
   map_of (documents example_world) (DocumentReference [''posts'', ''p1'', ''comments''] ''n'') =
     Some comment_n"
  using getUserCommentsQuery_results [of "''u1''" example_world]
  by (simp add: getUserCommentsQuery_def query_def collectionGroup_def where_c_def orderBy_def
      getValues_def run_query_def matching_def get_prop_def
      example_world_def c1_comments_def sort_value_def num_field_def path_def AList.delete_eq
      comment_m_def comment_n_def comment_k_def createdTime_def added_def newest_first_def)

text \<open>
  C2, as amended. For each of the three parents, when the create function's write commits
  and every other comment stored under that parent was created strictly before the new
  one, one-shot-listing the parent's comments yields the new comment first.
\<close>

theorem create_then_list_first:
  "(fst (createCommentOnContract contractId content user onContractWithBounty answerOutcome
           replyToCommentId w) = Inr () \<and>
    others_older (documents w) (DocumentReference [''contracts'', contractId, ''comments''] (autoId w (allocated w))) (clock w) \<longrightarrow>
      (\<exists>rest. fst (listAllComments contractId None
                 (snd (createCommentOnContract contractId content user onContractWithBounty
                    answerOutcome replyToCommentId w))) =
         Inr (comment_record (OnContract contractId answerOutcome) content user
                (DocumentReference [''contracts'', contractId, ''comments''] (autoId w (allocated w))) replyToCommentId (clock w)
              # rest))) \<and>
   (fst (createCommentOnGroup groupId content user replyToCommentId w) = Inr () \<and>
    others_older (documents w) (DocumentReference [''groups'', groupId, ''comments''] (autoId w (allocated w))) (clock w) \<longrightarrow>
      (\<exists>rest. fst (listAllCommentsOnGroup groupId
                 (snd (createCommentOnGroup groupId content user replyToCommentId w))) =
         comment_record (OnGroup groupId) content user
           (DocumentReference [''groups'', groupId, ''comments''] (autoId w (allocated w))) replyToCommentId (clock w)
         # rest)) \<and>
   (fst (createCommentOnPost postId content user replyToCommentId w) = Inr () \<and>
    others_older (documents w) (DocumentReference [''posts'', postId, ''comments''] (autoId w (allocated w))) (clock w) \<longrightarrow>
      (\<exists>rest. fst (listAllCommentsOnPost postId
                 (snd (createCommentOnPost postId content user replyToCommentId w))) =
         comment_record (OnPost postId) content user
           (DocumentReference [''posts'', postId, ''comments''] (autoId w (allocated w))) replyToCommentId (clock w)
         # rest))"
  using created_comment_listed_first [of contractId content user onContractWithBounty
      answerOutcome replyToCommentId w groupId postId]
  by (simp add: doc_def getCommentsCollection_def getCommentsOnGroupCollection_def
      getCommentsOnPostCollection_def collection_def)

theorem create_then_list_first_witness:
  "fst (createCommentOnContract ''c1'' (JStr ''hello'') alice False None None example_world) = Inr () \<and>
   others_older (documents example_world) (DocumentReference [''contracts'', ''c1'', ''comments''] ''a'')
     (clock example_world) \<and>
   fst (listAllComments ''c1'' None
          (snd (createCommentOnContract ''c1'' (JStr ''hello'') alice False None None example_world))) =
     Inr [comment_record (OnContract ''c1'' None) (JStr ''hello'') alice
            (DocumentReference c1_comments ''a'') None 10,
          comment_z, comment_k] \<and>
   fst (createCommentOnGroup ''g1'' (JStr ''hello'') alice None example_world) = Inr () \<and>
   others_older (documents example_world)
     (DocumentReference [''groups'', ''g1'', ''comments''] ''a'') (clock example_world) \<and>
   fst (listAllCommentsOnGroup ''g1''
          (snd (createCommentOnGroup ''g1'' (JStr ''hello'') alice None example_world))) =
     [comment_record (OnGroup ''g1'') (JStr ''hello'') alice
        (DocumentReference [''groups'', ''g1'', ''comments''] ''a'') None 10,
      comment_m] \<and>
   fst (createCommentOnPost ''p1'' (JStr ''hello'') alice None example_world) = Inr () \<and>
   others_older (documents example_world)
     (DocumentReference [''posts'', ''p1'', ''comments''] ''a'') (clock example_world) \<and>
   fst (listAllCommentsOnPost ''p1''
          (snd (createCommentOnPost ''p1'' (JStr ''hello'') alice None example_world))) =
     [comment_record (OnPost ''p1'') (JStr ''hello'') alice
        (DocumentReference [''posts'', ''p1'', ''comments''] ''a'') None 10,
      comment_n]"
  using create_then_list_first [of "''c1''" "JStr ''hello''" alice False None None example_world
      "''g1''" "''p1''"]
  by (simp add: createCommentOnContract_def createCommentOnGroup_def createCommentOnPost_def
      doc_def getCommentsCollection_def getCommentsOnGroupCollection_def
      getCommentsOnPostCollection_def collection_def
      createComment_def track_def setDoc_def comment_record_def track_properties_def
      removeUndefinedProps_def object_literal_def optional_def get_prop_def alice_def
      example_world_def c1_comments_def Let_def
      others_older_def stored_comments_def createdTime_def
      listAllComments_def listAllCommentsOnGroup_def listAllCommentsOnPost_def
      getValues_def query_def all_of_def orderBy_def run_query_def matching_def
      sort_value_def num_field_def path_def AList.delete_eq
      comment_z_def comment_k_def comment_m_def comment_n_def)

text \<open>
  C2 as stated fails on a tie. The market's one comment, at reference \<open>z\<close>, has creation
  time 5; a comment is created at reference \<open>a\<close> while the clock reads 5. No other comment
  is newer than the new one, yet the listing puts \<open>z\<close> first: equal creation times are
  ordered by path, descending.
\<close>

theorem create_then_list_tie_counterexample:
  "fst (createCommentOnContract ''c1'' (JStr ''hello'') alice False None None tied_world) = Inr () \<and>
   none_newer (documents tied_world) (DocumentReference [''contracts'', ''c1'', ''comments''] ''a'')
     (clock tied_world) \<and>
   fst (listAllComments ''c1'' None
          (snd (createCommentOnContract ''c1'' (JStr ''hello'') alice False None None tied_world))) =
     Inr [tied_z,
          comment_record (OnContract ''c1'' None) (JStr ''hello'') alice
            (DocumentReference c1_comments ''a'') None 5] \<and>
   tied_z \<noteq> comment_record (OnContract ''c1'' None) (JStr ''hello'') alice
            (DocumentReference c1_comments ''a'') None 5"
  by (simp add: createCommentOnContract_def
      doc_def getCommentsCollection_def collection_def
      createComment_def track_def setDoc_def comment_record_def track_properties_def
      removeUndefinedProps_def object_literal_def optional_def get_prop_def alice_def
      tied_world_def c1_comments_def Let_def
      none_newer_def stored_comments_def createdTime_def
      listAllComments_def
      getValues_def query_def all_of_def orderBy_def run_query_def matching_def
      sort_value_def num_field_def path_def AList.delete_eq tied_z_def)

end
